theory Spec2Isabelle
  imports Main "HOL-Library.Word" "HOL-Library.Sublist"
begin

section \<open>Data model of client.go\<close>

text \<open>
  Go strings and byte slices are sequences of 8-bit values: both are \<open>string\<close> here.
  A value of Go type \<open>byte\<close> that takes part in arithmetic is an \<open>8 word\<close>, so that
  \<open>keyLen + 8\<close> wraps around at 256 as it does in Go.
\<close>

type_synonym Environment = "string \<rightharpoonup> string"

text \<open>
  \<open>ClientConfig\<close>, field by field. \<open>Command\<close> is tested against \<open>nil\<close> by the code,
  so the nil slice (\<open>None\<close>) and the empty slice (\<open>Some []\<close>) are kept apart.
  \<open>DockerRunArgs\<close> and \<open>Keys\<close> are only read through \<open>len\<close> and \<open>append\<close>, where the
  nil slice and the empty slice behave alike: both are \<open>[]\<close>.
\<close>

record ClientConfig =
  ImageName :: string
  RemoteUser :: string
  Env :: Environment
  Command :: "string list option"
  DockerRunArgs :: "string list"
  User :: string
  Keys :: "string list"
  AuthenticationMethod :: string
  AuthenticationComment :: string
  EntryPoint :: string
  AuthenticationAttempts :: int
  Allowed :: bool
  IsLocal :: bool

text \<open>
  The \<open>Server\<close> struct is declared outside client.go; these are the fields client.go
  reads and writes. \<open>ClientConfigs\<close> is a Go map from client identifier to a pointer
  to a \<open>ClientConfig\<close>: a pointer is an address into the store \<open>heap\<close> below.
\<close>

record Server =
  LocalUser :: string
  NoJoin :: bool
  DefaultShell :: string
  ServerDockerRunArgs :: "string list"
  Banner :: string
  ClientConfigs :: "string \<rightharpoonup> nat"

text \<open>What \<open>NewClient\<close> reads from the \<open>ssh.ServerConn\<close>.\<close>

record ServerConn =
  conn_User :: string
  conn_RemoteAddr :: string

text \<open>
  The \<open>Client\<close> struct. \<open>Config\<close> is a pointer (an address of the store); the
  connection, the channel streams and the server pointer carry no data of their own
  in this model. The pseudo-terminal pair lives in the session state below.
\<close>

record Client =
  Idx :: int
  ChannelIdx :: int
  ClientID :: string
  Config :: nat

text \<open>
  The process-wide state: the server (its registry is a Go map, shared by reference),
  the store of allocated \<open>ClientConfig\<close> objects (the address of an object is its
  index), and the global \<open>clientCounter\<close>.
\<close>

record state =
  server :: Server
  heap :: "ClientConfig list"
  clientCounter :: int

section \<open>Go primitives used by client.go\<close>

text \<open>\<open>a[i]\<close> panics (\<open>None\<close>) unless \<open>i < len(a)\<close>.\<close>

definition index :: "string \<Rightarrow> nat \<Rightarrow> 8 word option" where
  "index a i = (if i < length a then Some (of_char (a ! i)) else None)"

text \<open>
  \<open>a[lo:hi]\<close> panics (\<open>None\<close>) unless \<open>lo \<le> hi \<le> cap(a)\<close>. A request payload is
  taken to have no spare capacity, so the bound is its length.
\<close>

definition go_slice :: "string \<Rightarrow> nat \<Rightarrow> nat \<Rightarrow> string option" where
  "go_slice a lo hi =
     (if lo \<le> hi \<and> hi \<le> length a then Some (take (hi - lo) (drop lo a)) else None)"

text \<open>\<open>strings.Replace(s, "_", "/", -1)\<close>: every underscore becomes a slash.\<close>

definition replace_underscores :: "string \<Rightarrow> string" where
  "replace_underscores s = map (\<lambda>c. if c = CHR ''_'' then CHR ''/'' else c) s"

text \<open>
  The banner normalisation: \<open>strings.Replace(banner, "\r", "", -1)\<close> followed by
  \<open>strings.Replace(banner, "\n", "\n\r", -1)\<close>.
\<close>

definition normalize_banner :: "string \<Rightarrow> string" where
  "normalize_banner b =
     concat (map (\<lambda>c. if c = CHR 0x0A then [CHR 0x0A, CHR 0x0D] else [c])
                 (filter (\<lambda>c. c \<noteq> CHR 0x0D) b))"

text \<open>
  \<open>strings.TrimSpace\<close> of the Go standard library removes leading and trailing white
  space as Unicode defines it. On the UTF-8 bytes of a string these are the encodings
  below: the six ASCII characters, U+0085, U+00A0, U+1680, U+2000 to U+200A, U+2028,
  U+2029, U+202F, U+205F and U+3000.
\<close>

definition space_runes :: "string list" where
  "space_runes =
     [[CHR 0x09], [CHR 0x0A], [CHR 0x0B], [CHR 0x0C], [CHR 0x0D], [CHR 0x20],
      [CHR 0xC2, CHR 0x85], [CHR 0xC2, CHR 0xA0],
      [CHR 0xE1, CHR 0x9A, CHR 0x80],
      [CHR 0xE2, CHR 0x80, CHR 0x80], [CHR 0xE2, CHR 0x80, CHR 0x81],
      [CHR 0xE2, CHR 0x80, CHR 0x82], [CHR 0xE2, CHR 0x80, CHR 0x83],
      [CHR 0xE2, CHR 0x80, CHR 0x84], [CHR 0xE2, CHR 0x80, CHR 0x85],
      [CHR 0xE2, CHR 0x80, CHR 0x86], [CHR 0xE2, CHR 0x80, CHR 0x87],
      [CHR 0xE2, CHR 0x80, CHR 0x88], [CHR 0xE2, CHR 0x80, CHR 0x89],
      [CHR 0xE2, CHR 0x80, CHR 0x8A],
      [CHR 0xE2, CHR 0x80, CHR 0xA8], [CHR 0xE2, CHR 0x80, CHR 0xA9],
      [CHR 0xE2, CHR 0x80, CHR 0xAF], [CHR 0xE2, CHR 0x81, CHR 0x9F],
      [CHR 0xE3, CHR 0x80, CHR 0x80]]"

text \<open>Remove leading occurrences of the given non-empty tokens, as long as there is one.\<close>

function strip_tokens :: "string list \<Rightarrow> string \<Rightarrow> string" where
  "strip_tokens toks s =
     (case find (\<lambda>t. t \<noteq> [] \<and> prefix t s) toks of
        None \<Rightarrow> s
      | Some t \<Rightarrow> strip_tokens toks (drop (length t) s))"
  by pat_completeness auto
termination
proof (relation "measure (\<lambda>(toks, s). length s)")
  show "wf (measure (\<lambda>(toks, s). length s))" by simp
next
  fix toks :: "string list" and s t :: string
  assume "find (\<lambda>t. t \<noteq> [] \<and> prefix t s) toks = Some t"
  then have "t \<noteq> [] \<and> prefix t s"
    by (auto simp: find_Some_iff)
  then have "s \<noteq> [] \<and> 0 < length t"
    by auto
  then show "((toks, drop (length t) s), (toks, s)) \<in> measure (\<lambda>(toks, s). length s)"
    by simp
qed

declare strip_tokens.simps [simp del]

definition TrimSpace :: "string \<Rightarrow> string" where
  "TrimSpace s = rev (strip_tokens (map rev space_runes) (rev (strip_tokens space_runes s)))"

section \<open>NewClient\<close>

datatype panic = IndexOutOfRange | SliceOutOfRange | NilDereference

text \<open>The composite literal of lines 63 to 71; fields it does not name are zero.\<close>

definition default_config :: "ServerConn \<Rightarrow> ClientConfig" where
  "default_config conn =
     \<lparr>ImageName = replace_underscores (conn_User conn),
      RemoteUser = ''anonymous'',
      Env = Map.empty,
      Command = Some [],
      DockerRunArgs = [],
      User = [],
      Keys = [],
      AuthenticationMethod = ''noauth'',
      AuthenticationComment = [],
      EntryPoint = [],
      AuthenticationAttempts = 0,
      Allowed = False,
      IsLocal = False\<rparr>"

text \<open>
  \<open>Env.ApplyDefaults\<close> belongs to package envhelper, outside client.go: it is the
  parameter \<open>ApplyDefaults\<close>. \<open>NewClient\<close> allocates a fresh configuration, registers it
  unless the identifier is already registered, and then points the client at whatever
  the registry holds. \<open>strings.Split(id, ":")\<close> has a second element only when the
  identifier contains a colon; \<open>remoteAddr[1]\<close> panics otherwise, after the registry
  and the counter have been updated.
\<close>

definition NewClient ::
  "(Environment \<Rightarrow> Environment) \<Rightarrow> ServerConn \<Rightarrow> state \<Rightarrow> state \<times> (panic + Client)" where
  "NewClient ApplyDefaults conn st =
     (let srv = server st;
          cid = conn_RemoteAddr conn;
          fresh = length (heap st);
          c0 = default_config conn;
          c1 = (if LocalUser srv \<noteq> [] then c0\<lparr>IsLocal := (ImageName c0 = LocalUser srv)\<rparr> else c0);
          h1 = heap st @ [c1];
          configs = (case ClientConfigs srv cid of
                       None \<Rightarrow> (ClientConfigs srv)(cid \<mapsto> fresh)
                     | Some _ \<Rightarrow> ClientConfigs srv);
          srv1 = srv\<lparr>ClientConfigs := configs\<rparr>
      in case configs cid of
           None \<Rightarrow> (st\<lparr>server := srv1, heap := h1\<rparr>, Inl NilDereference)
         | Some a \<Rightarrow>
             (let h2 = h1[a := (h1 ! a)\<lparr>Env := ApplyDefaults (Env (h1 ! a))\<rparr>];
                  st2 = \<lparr>server = srv1, heap = h2, clientCounter = clientCounter st + 1\<rparr>
              in if CHR '':'' \<in> set cid
                 then (st2, Inr \<lparr>Idx = clientCounter st, ChannelIdx = 0, ClientID = cid, Config = a\<rparr>)
                 else (st2, Inl IndexOutOfRange)))"

text \<open>Every registered pointer refers to an allocated object.\<close>

definition wf_state :: "state \<Rightarrow> bool" where
  "wf_state st = (\<forall>a \<in> ran (ClientConfigs (server st)). a < length (heap st))"

text \<open>A run of client constructions, one per accepted connection; panics end the process.\<close>

fun NewClients ::
  "(Environment \<Rightarrow> Environment) \<Rightarrow> ServerConn list \<Rightarrow> state \<Rightarrow> state option" where
  "NewClients AD [] st = Some st"
| "NewClients AD (conn # conns) st =
     (case NewClient AD conn st of
        (st1, Inl _) \<Rightarrow> None
      | (st1, Inr _) \<Rightarrow> NewClients AD conns st1)"

section \<open>Requests and their effects\<close>

record Request =
  Type :: string
  WantReply :: bool
  Payload :: string

text \<open>
  What a handler does to the outside: bytes written to the channel, \<open>time.Sleep\<close> (in
  seconds), the reply to a request, and the deferred \<open>c.Tty.Close()\<close>. Log lines are
  not recorded.
\<close>

datatype event = ChanWrite string | Sleep nat | Reply bool | TtyClose

text \<open>
  How a \<open>switch\<close> arm leaves: by falling out of the switch with the value of \<open>ok\<close>
  (also on \<open>break\<close>), by \<open>continue\<close>, which skips the reply, or by a panic.
\<close>

datatype flow = Fallthrough bool | Continue | Panicked panic

text \<open>
  An \<open>exec.Cmd\<close>: program, arguments, environment (\<open>None\<close> when \<open>cmd.Env\<close> is left
  nil), whether the three standard streams are \<open>c.Tty\<close>, and the two \<open>SysProcAttr\<close>
  flags. \<open>Env.List()\<close> is outside client.go; the command carries the mapping it lists.
\<close>

record Cmd =
  cmd_Path :: string
  cmd_Args :: "string list"
  cmd_Env :: "Environment option"
  cmd_Stdio_Tty :: bool
  cmd_Setctty :: bool
  cmd_Setsid :: bool

definition exec_Command :: "string \<Rightarrow> string list \<Rightarrow> Cmd" where
  "exec_Command name args =
     \<lparr>cmd_Path = name, cmd_Args = args, cmd_Env = None,
      cmd_Stdio_Tty = False, cmd_Setctty = False, cmd_Setsid = False\<rparr>"

text \<open>
  The operating system: what \<open>cmd.CombinedOutput()\<close> returns (\<open>None\<close> for an error)
  and whether \<open>cmd.Start()\<close> succeeds.
\<close>

record world =
  CombinedOutput :: "Cmd \<Rightarrow> string option"
  Start :: "Cmd \<Rightarrow> bool"

text \<open>
  The state a channel's request loop works on: the \<open>ClientConfig\<close> its \<open>Config\<close>
  pointer refers to, the window size of \<open>c.Pty\<close>, and the backing processes started
  so far, each with its three goroutines and its own \<open>sync.Once\<close>.
\<close>

record session =
  config :: ClientConfig
  winsize :: "32 word \<times> 32 word"
  procs :: "Cmd list"

section \<open>Terminal geometry\<close>

text \<open>
  Modelled from the spec: a field of the packed geometry is a 4-byte big-endian
  unsigned integer. The decoding belongs to package ttyhelper, outside client.go.
\<close>

definition be32 :: "string \<Rightarrow> 32 word" where
  "be32 b = foldl (\<lambda>acc c. acc * 256 + of_char c) 0 b"

text \<open>
  Modelled from the spec: \<open>ttyhelper.ParseDims\<close> and \<open>ttyhelper.SetWinsize\<close> are
  declared in package ttyhelper, outside client.go. The spec gives the packed geometry
  as columns, rows, pixel width and pixel height, and \<open>ParseDims\<close> decodes the first
  two. The call sites take two results and no error, so a buffer too short to hold the
  two fields can only end in a panic (\<open>None\<close>). \<open>SetWinsize\<close> resizes the terminal to
  the decoded pair: it is the update of \<open>winsize\<close>.
\<close>

definition ParseDims :: "string \<Rightarrow> (32 word \<times> 32 word) option" where
  "ParseDims b =
     (if length b < 8 then None
      else Some (be32 (take 4 b), be32 (take 4 (drop 4 b))))"

section \<open>The shell request: choosing the command\<close>

text \<open>The \<open>docker ps\<close> query of line 169, with \<open>cmd.Env\<close> set on line 170.\<close>

definition docker_ps :: "ClientConfig \<Rightarrow> Cmd" where
  "docker_ps cfg =
     (exec_Command ''docker''
        [''ps'', ''--filter=label=ssh2docker'',
         ''--filter=label=image='' @ ImageName cfg,
         ''--filter=label=user='' @ RemoteUser cfg,
         ''--quiet'', ''--no-trunc''])\<lparr>cmd_Env := Some (Env cfg)\<rparr>"

text \<open>Lines 182 to 186: the arguments of the attach.\<close>

definition join_args :: "Server \<Rightarrow> ClientConfig \<Rightarrow> string \<Rightarrow> string list" where
  "join_args srv cfg existingContainer =
     (let shell = DefaultShell srv;
          shell = (if EntryPoint cfg \<noteq> [] then EntryPoint cfg else shell)
      in [''exec'', ''-it'', existingContainer, shell])"

text \<open>Lines 192 to 210: the arguments of the create, one \<open>append\<close> after the other.\<close>

definition create_args :: "Server \<Rightarrow> ClientConfig \<Rightarrow> string list" where
  "create_args srv cfg =
     (let args = [''run''];
          args = (if length (DockerRunArgs cfg) > 0 then args @ DockerRunArgs cfg
                  else args @ ServerDockerRunArgs srv);
          args = args @ [''--label=ssh2docker'',
                         ''--label=user='' @ RemoteUser cfg,
                         ''--label=image='' @ ImageName cfg];
          args = (if User cfg \<noteq> [] then args @ [''-u'', User cfg] else args);
          args = (if EntryPoint cfg \<noteq> [] then args @ [''--entrypoint'', EntryPoint cfg] else args);
          args = args @ [ImageName cfg];
          args = (case Command cfg of
                    Some command \<Rightarrow> args @ command
                  | None \<Rightarrow> args @ [DefaultShell srv])
      in args)"

text \<open>
  Lines 163 to 215. \<open>None\<close> is the \<open>continue\<close> of line 174, taken when the query
  fails.
\<close>

definition shell_command :: "world \<Rightarrow> Server \<Rightarrow> ClientConfig \<Rightarrow> Cmd option" where
  "shell_command w srv cfg =
     (if IsLocal cfg then Some (exec_Command ''/bin/bash'' [])
      else
        (case (if \<not> NoJoin srv
               then map_option TrimSpace (CombinedOutput w (docker_ps cfg))
               else Some [])
         of None \<Rightarrow> None
          | Some existingContainer \<Rightarrow>
              if existingContainer \<noteq> []
              then Some ((exec_Command ''docker'' (join_args srv cfg existingContainer))
                           \<lparr>cmd_Env := Some (Env cfg)\<rparr>)
              else Some ((exec_Command ''docker'' (create_args srv cfg))
                           \<lparr>cmd_Env := Some (Env cfg)\<rparr>)))"

section \<open>The request switch\<close>

definition handle_shell :: "world \<Rightarrow> Server \<Rightarrow> session \<Rightarrow> string \<Rightarrow> session \<times> event list \<times> flow" where
  "handle_shell w srv s payload =
     (if length payload \<noteq> 0 then (s, [], Fallthrough False)
      else
        (case shell_command w srv (config s) of
           None \<Rightarrow> (s, [], Continue)
         | Some cmd \<Rightarrow>
             (let banner = (if Banner srv \<noteq> []
                            then [ChanWrite (normalize_banner (Banner srv) @ [CHR 0x0A, CHR 0x0D])]
                            else []);
                  cmd = cmd\<lparr>cmd_Stdio_Tty := True, cmd_Setctty := True, cmd_Setsid := True\<rparr>
              in if Start w cmd
                 then (s\<lparr>procs := procs s @ [cmd]\<rparr>, banner, Fallthrough True)
                 else (s, banner, Continue))))"

text \<open>The text written by \<open>fmt.Fprintln\<close> on line 266, with its final newline.\<close>

definition exec_warning :: string where
  "exec_warning =
     [CHR 0xE2, CHR 0x9A, CHR 0xA0, CHR 0xEF, CHR 0xB8, CHR 0x8F]
     @ ''  ssh2docker: exec is not yet implemented. https://github.com/moul/ssh2docker/issues/51.''
     @ [CHR 0x0A]"

definition handle_exec :: "session \<Rightarrow> session \<times> event list \<times> flow" where
  "handle_exec s = (s, [ChanWrite exec_warning, Sleep 3], Fallthrough False)"

definition handle_pty_req :: "session \<Rightarrow> string \<Rightarrow> session \<times> event list \<times> flow" where
  "handle_pty_req s payload =
     (case index payload 3 of
        None \<Rightarrow> (s, [], Panicked IndexOutOfRange)
      | Some termLen \<Rightarrow>
          (case go_slice payload 4 (unat (termLen + 4)) of
             None \<Rightarrow> (s, [], Panicked SliceOutOfRange)
           | Some term \<Rightarrow>
               (let s1 = s\<lparr>config := (config s)\<lparr>Env := (Env (config s))(''TERM'' \<mapsto> term)\<rparr>\<rparr>
                in case go_slice payload (unat (termLen + 4)) (length payload) of
                     None \<Rightarrow> (s1, [], Panicked SliceOutOfRange)
                   | Some rest \<Rightarrow>
                       (case ParseDims rest of
                          None \<Rightarrow> (s1, [], Panicked IndexOutOfRange)
                        | Some (w, h) \<Rightarrow> (s1\<lparr>winsize := (w, h)\<rparr>, [], Fallthrough True)))))"

definition handle_window_change :: "session \<Rightarrow> string \<Rightarrow> session \<times> event list \<times> flow" where
  "handle_window_change s payload =
     (case ParseDims payload of
        None \<Rightarrow> (s, [], Panicked IndexOutOfRange)
      | Some (w, h) \<Rightarrow> (s\<lparr>winsize := (w, h)\<rparr>, [], Continue))"

text \<open>The \<open>env\<close> arm never assigns \<open>ok\<close>: it leaves the switch with \<open>ok\<close> still false.\<close>

definition handle_env :: "session \<Rightarrow> string \<Rightarrow> session \<times> event list \<times> flow" where
  "handle_env s payload =
     (case index payload 3 of
        None \<Rightarrow> (s, [], Panicked IndexOutOfRange)
      | Some keyLen \<Rightarrow>
          (case go_slice payload 4 (unat (keyLen + 4)) of
             None \<Rightarrow> (s, [], Panicked SliceOutOfRange)
           | Some key \<Rightarrow>
               (case index payload (unat (keyLen + 7)) of
                  None \<Rightarrow> (s, [], Panicked IndexOutOfRange)
                | Some valueLen \<Rightarrow>
                    (case go_slice payload (unat (keyLen + 8)) (unat (keyLen + 8 + valueLen)) of
                       None \<Rightarrow> (s, [], Panicked SliceOutOfRange)
                     | Some val \<Rightarrow>
                         (s\<lparr>config := (config s)\<lparr>Env := (Env (config s))(key \<mapsto> val)\<rparr>\<rparr>,
                          [], Fallthrough False)))))"

definition handle_request :: "world \<Rightarrow> Server \<Rightarrow> session \<Rightarrow> Request \<Rightarrow> session \<times> event list \<times> flow" where
  "handle_request w srv s req =
     (if Type req = ''shell'' then handle_shell w srv s (Payload req)
      else if Type req = ''exec'' then handle_exec s
      else if Type req = ''pty-req'' then handle_pty_req s (Payload req)
      else if Type req = ''window-change'' then handle_window_change s (Payload req)
      else if Type req = ''env'' then handle_env s (Payload req)
      else (s, [], Fallthrough False))"

text \<open>Lines 294 to 299: the reply, reached only by falling out of the switch.\<close>

definition reply_events :: "Request \<Rightarrow> flow \<Rightarrow> event list" where
  "reply_events req fl =
     (case fl of
        Fallthrough ok \<Rightarrow> (if WantReply req then [Reply ok] else [])
      | Continue \<Rightarrow> []
      | Panicked p \<Rightarrow> [])"

text \<open>One turn of the loop of line 150: the switch, then the reply.\<close>

definition serve :: "world \<Rightarrow> Server \<Rightarrow> session \<Rightarrow> Request \<Rightarrow> session \<times> event list \<times> flow" where
  "serve w srv s req =
     (case handle_request w srv s req of
        (s1, evs, fl) \<Rightarrow> (s1, evs @ reply_events req fl, fl))"

text \<open>
  The goroutine of \<open>HandleChannelRequests\<close>: requests in arrival order, until the
  stream ends or a request panics; the deferred \<open>c.Tty.Close()\<close> runs either way.
\<close>

fun HandleChannelRequests ::
  "world \<Rightarrow> Server \<Rightarrow> session \<Rightarrow> Request list \<Rightarrow> session \<times> event list \<times> panic option" where
  "HandleChannelRequests w srv s [] = (s, [TtyClose], None)"
| "HandleChannelRequests w srv s (req # reqs) =
     (case serve w srv s req of
        (s1, evs, Panicked p) \<Rightarrow> (s1, evs @ [TtyClose], Some p)
      | (s1, evs, _) \<Rightarrow>
          (case HandleChannelRequests w srv s1 reqs of
             (s2, evs2, res) \<Rightarrow> (s2, evs @ evs2, res)))"

text \<open>
  \<open>c.Config\<close> is a pointer: a request served for client \<open>c\<close> reads and writes the
  record at address \<open>Config c\<close> of the store, and every client holding that address
  works on the same record. The window size and the processes belong to the channel.
\<close>

definition Client_serve ::
  "world \<Rightarrow> Client \<Rightarrow> state \<times> session \<Rightarrow> Request \<Rightarrow> (state \<times> session) \<times> event list \<times> flow" where
  "Client_serve w c sts req =
     (case sts of (st, s) \<Rightarrow>
        (case serve w (server st) (s\<lparr>config := heap st ! Config c\<rparr>) req of
           (s1, evs, fl) \<Rightarrow>
             ((st\<lparr>heap := (heap st)[Config c := config s1]\<rparr>, s1), evs, fl)))"

section \<open>HandleRequests: connection-level requests\<close>

fun HandleRequests :: "session \<Rightarrow> Request list \<Rightarrow> session \<times> event list" where
  "HandleRequests s [] = (s, [])"
| "HandleRequests s (req # reqs) =
     (case HandleRequests s reqs of
        (s1, evs) \<Rightarrow> (s1, (if WantReply req then [Reply False] else []) @ evs))"

section \<open>Teardown: three goroutines and one sync.Once\<close>

text \<open>
  After a successful \<open>cmd.Start()\<close> three goroutines run: two \<open>io.Copy\<close> loops and
  \<open>cmd.Wait()\<close>. Each blocks until its operation ends and then calls
  \<open>once.Do(close)\<close>. A goroutine is \<open>Running\<close> while it blocks, \<open>Finished\<close> when its
  operation has ended and it stands before \<open>once.Do\<close>, and \<open>Returned\<close> after it.
  \<open>sync.Once\<close> is the standard library's: \<open>Do\<close> runs its argument if and only if no
  earlier \<open>Do\<close> on the same \<open>Once\<close> has, and is one indivisible step here. The
  goroutines interleave in any order: a schedule is a list of actions.
\<close>

datatype task = PtyToChannel | ChannelToPty | CmdWait

datatype progress = Running | Finished | Returned

datatype teardown_event = ChannelClose | LogInfo string

record teardown =
  once_done :: bool
  closed :: "teardown_event list"
  progress_of :: "task \<Rightarrow> progress"

datatype action = Finish task | OnceDo task

text \<open>The closure \<open>close\<close> of lines 239 to 242.\<close>

definition close :: "string \<Rightarrow> teardown_event list" where
  "close cid =
     [ChannelClose, LogInfo (''Received disconnect from '' @ cid @ '': disconnected by user'')]"

definition once_Do :: "string \<Rightarrow> teardown \<Rightarrow> teardown" where
  "once_Do cid td =
     (if once_done td then td
      else td\<lparr>once_done := True, closed := closed td @ close cid\<rparr>)"

fun step :: "string \<Rightarrow> action \<Rightarrow> teardown \<Rightarrow> teardown" where
  "step cid (Finish t) td =
     (if progress_of td t = Running
      then td\<lparr>progress_of := (progress_of td)(t := Finished)\<rparr>
      else td)"
| "step cid (OnceDo t) td =
     (if progress_of td t = Finished
      then (once_Do cid td)\<lparr>progress_of := (progress_of td)(t := Returned)\<rparr>
      else td)"

text \<open>The state right after line 238: a new \<open>Once\<close>, three goroutines just started.\<close>

definition started :: teardown where
  "started = \<lparr>once_done = False, closed = [], progress_of = (\<lambda>t. Running)\<rparr>"

definition run :: "string \<Rightarrow> action list \<Rightarrow> teardown" where
  "run cid schedule = fold (step cid) schedule started"

section \<open>Example inputs\<close>

definition example_conn :: ServerConn where
  "example_conn = \<lparr>conn_User = ''alpine_test'', conn_RemoteAddr = ''10.0.0.1:4242''\<rparr>"

definition example_server :: Server where
  "example_server =
     \<lparr>LocalUser = [], NoJoin = False, DefaultShell = ''/bin/sh'',
      ServerDockerRunArgs = [''-it'', ''--rm''], Banner = [], ClientConfigs = Map.empty\<rparr>"

definition example_state :: state where
  "example_state = \<lparr>server = example_server, heap = [], clientCounter = 0\<rparr>"

definition example_session :: session where
  "example_session = \<lparr>config = default_config example_conn, winsize = (0, 0), procs = []\<rparr>"

text \<open>A world where a container is running, and one where none is; both start any command.\<close>

definition world_running :: world where
  "world_running =
     \<lparr>CombinedOutput = (\<lambda>cmd. Some (''4f2a9c'' @ [CHR 0x0A])), Start = (\<lambda>cmd. True)\<rparr>"

definition world_idle :: world where
  "world_idle = \<lparr>CombinedOutput = (\<lambda>cmd. Some []), Start = (\<lambda>cmd. True)\<rparr>"

text \<open>
  A goroutine has gone through \<open>once.Do\<close> in a schedule when the schedule holds its
  \<open>OnceDo\<close> somewhere after its \<open>Finish\<close>.
\<close>

definition reaches_Do :: "task \<Rightarrow> action list \<Rightarrow> bool" where
  "reaches_Do t schedule =
     (\<exists>before after. schedule = before @ OnceDo t # after \<and> Finish t \<in> set before)"

text \<open>What the state after a schedule is, read off the schedule.\<close>

definition tracks :: "string \<Rightarrow> action list \<Rightarrow> teardown \<Rightarrow> bool" where
  "tracks cid schedule td =
     ((\<forall>t. progress_of td t =
             (if reaches_Do t schedule then Returned
              else if Finish t \<in> set schedule then Finished else Running))
      \<and> (once_done td \<longleftrightarrow> (\<exists>t. reaches_Do t schedule))
      \<and> closed td = (if \<exists>t. reaches_Do t schedule then close cid else []))"

section \<open>Teardown runs once\<close>

lemma reaches_Do_Nil: "\<not> reaches_Do t []"
  by (simp add: reaches_Do_def)

lemma reaches_Do_snoc:
  "reaches_Do t (schedule @ [a]) \<longleftrightarrow>
     reaches_Do t schedule \<or> (a = OnceDo t \<and> Finish t \<in> set schedule)"
proof
  assume "reaches_Do t (schedule @ [a])"
  then obtain before after where eq: "schedule @ [a] = before @ OnceDo t # after"
    and fin: "Finish t \<in> set before"
    by (auto simp: reaches_Do_def)
  show "reaches_Do t schedule \<or> (a = OnceDo t \<and> Finish t \<in> set schedule)"
  proof (cases after rule: rev_cases)
    case Nil
    with eq have "schedule = before" and "a = OnceDo t" by simp_all
    with fin show ?thesis by simp
  next
    case (snoc after' b)
    with eq have "schedule = before @ OnceDo t # after'" by simp
    with fin show ?thesis by (auto simp: reaches_Do_def)
  qed
next
  assume "reaches_Do t schedule \<or> (a = OnceDo t \<and> Finish t \<in> set schedule)"
  then show "reaches_Do t (schedule @ [a])"
  proof
    assume "reaches_Do t schedule"
    then obtain before after where "schedule = before @ OnceDo t # after" "Finish t \<in> set before"
      by (auto simp: reaches_Do_def)
    then have "schedule @ [a] = before @ OnceDo t # (after @ [a]) \<and> Finish t \<in> set before"
      by simp
    then show ?thesis unfolding reaches_Do_def by blast
  next
    assume "a = OnceDo t \<and> Finish t \<in> set schedule"
    then have "schedule @ [a] = schedule @ OnceDo t # [] \<and> Finish t \<in> set schedule"
      by simp
    then show ?thesis unfolding reaches_Do_def by blast
  qed
qed

lemma tracks_started: "tracks cid [] started"
  by (simp add: tracks_def started_def reaches_Do_Nil)

lemma reaches_Do_needs_Finish: "reaches_Do t schedule \<Longrightarrow> Finish t \<in> set schedule"
  by (auto simp: reaches_Do_def)

lemma tracks_step:
  assumes "tracks cid schedule td"
  shows "tracks cid (schedule @ [a]) (step cid a td)"
proof (cases a)
  case (Finish t)
  have r: "\<And>u. reaches_Do u (schedule @ [a]) = reaches_Do u schedule"
    using Finish by (simp add: reaches_Do_snoc)
  show ?thesis
    using assms Finish reaches_Do_needs_Finish [of t schedule]
    unfolding tracks_def r
    by auto
next
  case (OnceDo t)
  have r: "\<And>u. reaches_Do u (schedule @ [a]) =
             (reaches_Do u schedule \<or> (u = t \<and> Finish t \<in> set schedule))"
    using OnceDo by (auto simp: reaches_Do_snoc)
  show ?thesis
  proof (cases "progress_of td t = Finished")
    case True
    with assms have fin: "Finish t \<in> set schedule" and nr: "\<not> reaches_Do t schedule"
      by (auto simp: tracks_def split: if_splits)
    have ex: "(\<exists>u. reaches_Do u schedule \<or> (u = t \<and> Finish t \<in> set schedule))"
      using fin by blast
    show ?thesis
      using assms OnceDo True fin nr ex
      unfolding tracks_def r
      by (auto simp: once_Do_def)
  next
    case False
    with assms have "reaches_Do t schedule \<or> Finish t \<notin> set schedule"
      by (auto simp: tracks_def split: if_splits)
    then have same: "\<And>u. (reaches_Do u schedule \<or> (u = t \<and> Finish t \<in> set schedule)) = reaches_Do u schedule"
      by auto
    show ?thesis
      using assms OnceDo False
      unfolding tracks_def r same
      by simp
  qed
qed

lemma tracks_run: "tracks cid schedule (run cid schedule)"
proof (induction schedule rule: rev_induct)
  case Nil
  show ?case by (simp add: run_def tracks_started)
next
  case (snoc a schedule)
  from tracks_step [OF snoc, of a] show ?case by (simp add: run_def)
qed

text \<open>
  C1. For a started backing process and every interleaving of its three goroutines:
  the close-and-log action (close the channel, log the disconnect of the client) has
  run exactly once if some goroutine, whichever of the three, has reached \<open>once.Do\<close>
  after its operation ended, and has not run at all otherwise; it never runs a second
  time, however many of the three reach \<open>once.Do\<close>. Each goroutine is where the
  schedule has brought it. So the first goroutine whose operation has ended and that
  calls \<open>once.Do\<close> leaves the teardown done.
\<close>

theorem teardown_exactly_once:
  "closed (run cid schedule) =
     (if \<exists>t before after. schedule = before @ OnceDo t # after \<and> Finish t \<in> set before
      then [ChannelClose, LogInfo (''Received disconnect from '' @ cid @ '': disconnected by user'')]
      else [])
   \<and> (\<forall>t. progress_of (run cid schedule) t =
          (if \<exists>before after. schedule = before @ OnceDo t # after \<and> Finish t \<in> set before
           then Returned
           else if Finish t \<in> set schedule then Finished else Running))
   \<and> (\<forall>t. Finish t \<in> set schedule \<longrightarrow>
          closed (run cid (schedule @ [OnceDo t])) =
            [ChannelClose, LogInfo (''Received disconnect from '' @ cid @ '': disconnected by user'')])"
proof -
  have now: "tracks cid schedule (run cid schedule)"
    by (rule tracks_run)
  have "\<And>t. Finish t \<in> set schedule \<Longrightarrow> reaches_Do t (schedule @ [OnceDo t])"
    by (simp add: reaches_Do_snoc)
  then have next_Do: "\<And>t. Finish t \<in> set schedule \<Longrightarrow> \<exists>u. reaches_Do u (schedule @ [OnceDo t])"
    by blast
  have "\<And>t. Finish t \<in> set schedule \<Longrightarrow> closed (run cid (schedule @ [OnceDo t])) = close cid"
    using tracks_run [of cid "schedule @ [OnceDo t]" for t] next_Do
    by (simp add: tracks_def)
  with now show ?thesis
    by (simp add: tracks_def reaches_Do_def close_def)
qed

text \<open>
  Nothing has ended: nothing is closed. \<open>once.Do\<close> cannot come before the end of the
  operation. Process exit and one copy loop end together and both call \<open>once.Do\<close>:
  one close, one log line.
\<close>

theorem teardown_exactly_once_witness:
  "closed (run ''10.0.0.1:4242'' []) = []
   \<and> closed (run ''10.0.0.1:4242'' [OnceDo CmdWait]) = []
   \<and> closed (run ''10.0.0.1:4242''
               [Finish CmdWait, Finish PtyToChannel, OnceDo PtyToChannel, OnceDo CmdWait])
       = [ChannelClose, LogInfo ''Received disconnect from 10.0.0.1:4242: disconnected by user'']
   \<and> progress_of (run ''10.0.0.1:4242''
               [Finish CmdWait, Finish PtyToChannel, OnceDo PtyToChannel, OnceDo CmdWait]) ChannelToPty
       = Running"
  using teardown_exactly_once [of "''10.0.0.1:4242''" "[]"]
    teardown_exactly_once [of "''10.0.0.1:4242''" "[Finish CmdWait, Finish PtyToChannel, OnceDo PtyToChannel]"]
  by (simp add: run_def started_def once_Do_def close_def)

section \<open>The shell request\<close>

lemma handle_shell_cases:
  "handle_shell w srv s payload = (s', evs, fl) \<Longrightarrow>
     (payload \<noteq> [] \<and> s' = s \<and> evs = [] \<and> fl = Fallthrough False)
   \<or> (payload = [] \<and> s' = s \<and> fl = Continue \<and> (\<forall>e \<in> set evs. \<exists>b. e = ChanWrite b))
   \<or> (payload = [] \<and> fl = Fallthrough True \<and> (\<forall>e \<in> set evs. \<exists>b. e = ChanWrite b)
        \<and> (\<exists>cmd. Start w cmd \<and> s' = s\<lparr>procs := procs s @ [cmd]\<rparr>))"
  by (auto simp: handle_shell_def Let_def split: if_splits option.splits)

text \<open>
  C2. A \<open>shell\<close> request is accepted (it leaves the switch with \<open>ok\<close> true, or a reply
  true is sent) only if its payload is empty and \<open>cmd.Start()\<close> succeeded on the command
  that then joins the session's processes. A \<open>shell\<close> request with a non-empty payload
  is declined: the session is unchanged, no process is started, and the only event is
  the reply false when a reply is wanted.
\<close>

theorem shell_accept:
  assumes "Type req = ''shell''" and "serve w srv s req = (s', evs, fl)"
  shows "(fl = Fallthrough True \<or> Reply True \<in> set evs \<longrightarrow>
            length (Payload req) = 0 \<and> (\<exists>cmd. Start w cmd \<and> procs s' = procs s @ [cmd]))
       \<and> (length (Payload req) \<noteq> 0 \<longrightarrow>
            s' = s \<and> evs = (if WantReply req then [Reply False] else []) \<and> fl = Fallthrough False)"
proof -
  obtain evs0 where h: "handle_shell w srv s (Payload req) = (s', evs0, fl)"
    and evs: "evs = evs0 @ reply_events req fl"
    using assms by (auto simp: serve_def handle_request_def split: prod.splits)
  from handle_shell_cases [OF h] show ?thesis
    unfolding evs by (auto simp: reply_events_def)
qed

text \<open>An empty shell request is accepted in \<open>world_idle\<close>; one with a payload is declined.\<close>

theorem shell_accept_witness:
  "(\<exists>s' evs. serve world_idle example_server example_session
                 \<lparr>Type = ''shell'', WantReply = True, Payload = []\<rparr> = (s', evs, Fallthrough True)
             \<and> Reply True \<in> set evs
             \<and> (\<exists>cmd. Start world_idle cmd \<and> procs s' = procs example_session @ [cmd]))
   \<and> serve world_idle example_server example_session
        \<lparr>Type = ''shell'', WantReply = True, Payload = ''x''\<rparr>
      = (example_session, [Reply False], Fallthrough False)"
proof -
  let ?ok = "\<lparr>Type = ''shell'', WantReply = True, Payload = []\<rparr>"
  let ?bad = "\<lparr>Type = ''shell'', WantReply = True, Payload = ''x''\<rparr>"
  obtain s' evs fl where ok: "serve world_idle example_server example_session ?ok = (s', evs, fl)"
    by (metis prod_cases3)
  have "TrimSpace [] = []"
    by (simp add: TrimSpace_def strip_tokens.simps space_runes_def)
  then have fl: "fl = Fallthrough True"
    using ok
    by (auto simp: serve_def handle_request_def handle_shell_def shell_command_def Let_def
          world_idle_def example_server_def example_session_def default_config_def)
  have t: "Type ?ok = ''shell''" by simp
  have "Reply True \<in> set evs"
    using ok fl
    by (auto simp: serve_def reply_events_def split: prod.splits)
  with shell_accept [OF t ok] fl ok
  have first: "\<exists>s' evs. serve world_idle example_server example_session ?ok = (s', evs, Fallthrough True)
             \<and> Reply True \<in> set evs
             \<and> (\<exists>cmd. Start world_idle cmd \<and> procs s' = procs example_session @ [cmd])"
    by auto
  obtain s2 evs2 fl2 where bad: "serve world_idle example_server example_session ?bad = (s2, evs2, fl2)"
    by (metis prod_cases3)
  have t2: "Type ?bad = ''shell''" by simp
  from shell_accept [OF t2 bad] bad
  have "serve world_idle example_server example_session ?bad
          = (example_session, [Reply False], Fallthrough False)"
    by simp
  with first show ?thesis by blast
qed

lemma create_args_eq:
  "create_args srv cfg =
     [''run'']
     @ (if DockerRunArgs cfg \<noteq> [] then DockerRunArgs cfg else ServerDockerRunArgs srv)
     @ [''--label=ssh2docker'', ''--label=user='' @ RemoteUser cfg, ''--label=image='' @ ImageName cfg]
     @ (if User cfg \<noteq> [] then [''-u'', User cfg] else [])
     @ (if EntryPoint cfg \<noteq> [] then [''--entrypoint'', EntryPoint cfg] else [])
     @ [ImageName cfg]
     @ (case Command cfg of None \<Rightarrow> [DefaultShell srv] | Some command \<Rightarrow> command)"
  by (simp add: create_args_def Let_def split: option.splits)

lemma shell_command_queried:
  assumes "\<not> IsLocal cfg" and "\<not> NoJoin srv" and "CombinedOutput w (docker_ps cfg) = Some out"
  shows "shell_command w srv cfg =
           Some \<lparr>cmd_Path = ''docker'',
                 cmd_Args = (if TrimSpace out \<noteq> [] then join_args srv cfg (TrimSpace out)
                             else create_args srv cfg),
                 cmd_Env = Some (Env cfg),
                 cmd_Stdio_Tty = False, cmd_Setctty = False, cmd_Setsid = False\<rparr>"
  using assms by (simp add: shell_command_def exec_Command_def)

text \<open>
  C3. A \<open>shell\<close> request with an empty payload, for a session that is not local, on a
  server with reuse enabled, where the \<open>docker ps\<close> query filtered on the marker label,
  the image label and the remote-user label succeeds. When the trimmed output of the
  query is not empty, the command the request starts is \<open>docker exec -it\<close> on that
  identifier with the session's entrypoint, or the server's default shell when the
  entrypoint is empty, and nothing else. When the output is empty, it is \<open>docker run\<close>
  followed, in this order, by the session's launch arguments when there are any and the
  server's otherwise, the marker label, the remote-user label, the image label, the
  run-as-user override when set, the entrypoint override when set, the image name, and
  the trailing command. That command, bound to the terminal, is the one handed to
  \<open>cmd.Start()\<close>; it joins the session's processes when the start succeeds, and the
  request is then accepted.
\<close>

theorem shell_join_or_create:
  assumes shell: "Type req = ''shell''" and empty: "Payload req = []"
    and nonlocal: "\<not> IsLocal (config s)" and reuse: "\<not> NoJoin srv"
    and query: "CombinedOutput w
                 \<lparr>cmd_Path = ''docker'',
                  cmd_Args = [''ps'', ''--filter=label=ssh2docker'',
                              ''--filter=label=image='' @ ImageName (config s),
                              ''--filter=label=user='' @ RemoteUser (config s),
                              ''--quiet'', ''--no-trunc''],
                  cmd_Env = Some (Env (config s)),
                  cmd_Stdio_Tty = False, cmd_Setctty = False, cmd_Setsid = False\<rparr> = Some out"
    and cmd: "cmd =
       \<lparr>cmd_Path = ''docker'',
        cmd_Args =
          (if TrimSpace out \<noteq> []
           then [''exec'', ''-it'', TrimSpace out,
                 if EntryPoint (config s) \<noteq> [] then EntryPoint (config s) else DefaultShell srv]
           else [''run'']
                @ (if DockerRunArgs (config s) \<noteq> [] then DockerRunArgs (config s)
                   else ServerDockerRunArgs srv)
                @ [''--label=ssh2docker'', ''--label=user='' @ RemoteUser (config s),
                   ''--label=image='' @ ImageName (config s)]
                @ (if User (config s) \<noteq> [] then [''-u'', User (config s)] else [])
                @ (if EntryPoint (config s) \<noteq> [] then [''--entrypoint'', EntryPoint (config s)] else [])
                @ [ImageName (config s)]
                @ (case Command (config s) of None \<Rightarrow> [DefaultShell srv] | Some command \<Rightarrow> command)),
        cmd_Env = Some (Env (config s)),
        cmd_Stdio_Tty = True, cmd_Setctty = True, cmd_Setsid = True\<rparr>"
    and banner: "banner = (if Banner srv \<noteq> []
                   then [ChanWrite (normalize_banner (Banner srv) @ [CHR 0x0A, CHR 0x0D])] else [])"
  shows "serve w srv s req =
           (if Start w cmd
            then (s\<lparr>procs := procs s @ [cmd]\<rparr>,
                  banner @ (if WantReply req then [Reply True] else []), Fallthrough True)
            else (s, banner, Continue))"
proof -
  have q: "CombinedOutput w (docker_ps (config s)) = Some out"
    using query by (simp add: docker_ps_def exec_Command_def)
  have c: "shell_command w srv (config s) =
             Some (cmd\<lparr>cmd_Stdio_Tty := False, cmd_Setctty := False, cmd_Setsid := False\<rparr>)"
    unfolding shell_command_queried [OF nonlocal reuse q] cmd
    by (simp add: join_args_def create_args_eq)
  have h: "handle_shell w srv s [] =
             (if Start w cmd then (s\<lparr>procs := procs s @ [cmd]\<rparr>, banner, Fallthrough True)
              else (s, banner, Continue))"
    unfolding handle_shell_def c banner
    by (simp add: cmd)
  show ?thesis
    using shell empty h
    by (simp add: serve_def handle_request_def reply_events_def)
qed

text \<open>With a container running the request attaches to it; with none it creates one.\<close>

theorem shell_join_or_create_witness:
  "serve world_running example_server example_session
     \<lparr>Type = ''shell'', WantReply = True, Payload = []\<rparr>
     = (example_session
          \<lparr>procs := [\<lparr>cmd_Path = ''docker'',
                      cmd_Args = [''exec'', ''-it'', ''4f2a9c'', ''/bin/sh''],
                      cmd_Env = Some Map.empty,
                      cmd_Stdio_Tty = True, cmd_Setctty = True, cmd_Setsid = True\<rparr>]\<rparr>,
        [Reply True], Fallthrough True)
   \<and> serve world_idle example_server example_session
     \<lparr>Type = ''shell'', WantReply = True, Payload = []\<rparr>
     = (example_session
          \<lparr>procs := [\<lparr>cmd_Path = ''docker'',
                      cmd_Args = [''run'', ''-it'', ''--rm'', ''--label=ssh2docker'',
                                  ''--label=user=anonymous'', ''--label=image=alpine/test'',
                                  ''alpine/test''],
                      cmd_Env = Some Map.empty,
                      cmd_Stdio_Tty = True, cmd_Setctty = True, cmd_Setsid = True\<rparr>]\<rparr>,
        [Reply True], Fallthrough True)"
proof -
  let ?req = "\<lparr>Type = ''shell'', WantReply = True, Payload = []\<rparr>"
  have t: "Type ?req = ''shell''" and p: "Payload ?req = []" by simp_all
  have l: "\<not> IsLocal (config example_session)"
    by (simp add: example_session_def default_config_def)
  have j: "\<not> NoJoin example_server" by (simp add: example_server_def)
  have tr: "TrimSpace (''4f2a9c'' @ [CHR 0x0A]) = ''4f2a9c''"
    by (simp add: TrimSpace_def strip_tokens.simps space_runes_def)
  have ti: "TrimSpace [] = []"
    by (simp add: TrimSpace_def strip_tokens.simps space_runes_def)
  have cfg: "DockerRunArgs (config example_session) = []" "User (config example_session) = []"
    "EntryPoint (config example_session) = []" "Command (config example_session) = Some []"
    "RemoteUser (config example_session) = ''anonymous''"
    "ImageName (config example_session) = ''alpine/test''"
    "Env (config example_session) = Map.empty" "procs example_session = []"
    by (simp_all add: example_session_def default_config_def example_conn_def replace_underscores_def)
  have srv: "DefaultShell example_server = ''/bin/sh''"
    "ServerDockerRunArgs example_server = [''-it'', ''--rm'']" "Banner example_server = []"
    by (simp_all add: example_server_def)
  have wr: "\<And>cmd. CombinedOutput world_running cmd = Some (''4f2a9c'' @ [CHR 0x0A])"
    "\<And>cmd. Start world_running cmd"
    by (simp_all add: world_running_def)
  have wi: "\<And>cmd. CombinedOutput world_idle cmd = Some []" "\<And>cmd. Start world_idle cmd"
    by (simp_all add: world_idle_def)
  from shell_join_or_create [OF t p l j wr(1) refl refl, unfolded tr]
  have join: "serve world_running example_server example_session ?req
     = (example_session
          \<lparr>procs := [\<lparr>cmd_Path = ''docker'',
                      cmd_Args = [''exec'', ''-it'', ''4f2a9c'', ''/bin/sh''],
                      cmd_Env = Some Map.empty,
                      cmd_Stdio_Tty = True, cmd_Setctty = True, cmd_Setsid = True\<rparr>]\<rparr>,
        [Reply True], Fallthrough True)"
    by (simp add: cfg srv wr(2))
  from shell_join_or_create [OF t p l j wi(1) refl refl, unfolded ti]
  have create: "serve world_idle example_server example_session ?req
     = (example_session
          \<lparr>procs := [\<lparr>cmd_Path = ''docker'',
                      cmd_Args = [''run'', ''-it'', ''--rm'', ''--label=ssh2docker'',
                                  ''--label=user=anonymous'', ''--label=image=alpine/test'',
                                  ''alpine/test''],
                      cmd_Env = Some Map.empty,
                      cmd_Stdio_Tty = True, cmd_Setctty = True, cmd_Setsid = True\<rparr>]\<rparr>,
        [Reply True], Fallthrough True)"
    by (simp add: cfg srv wi(2))
  from join create show ?thesis by blast
qed

text \<open>
  C4, at a failing input. The session \<open>NewClient\<close> builds for user \<open>alpine_test\<close> has
  an empty command list. A create launch for it should end with the server's default
  shell \<open>/bin/sh\<close> after the image name. Line 206 tests the list against \<open>nil\<close>, and
  the list of line 70 is empty but not \<open>nil\<close>: the command started ends with the image
  name, and the default shell is not among its arguments.
\<close>

theorem default_session_create_omits_shell:
  "\<exists>st1 c cmd.
     NewClient (\<lambda>e. e) example_conn example_state = (st1, Inr c)
     \<and> Command (heap st1 ! Config c) = Some []
     \<and> serve world_idle example_server
          \<lparr>config = heap st1 ! Config c, winsize = (0, 0), procs = []\<rparr>
          \<lparr>Type = ''shell'', WantReply = True, Payload = []\<rparr>
        = (\<lparr>config = heap st1 ! Config c, winsize = (0, 0), procs = [cmd]\<rparr>,
           [Reply True], Fallthrough True)
     \<and> cmd_Args cmd = [''run'', ''-it'', ''--rm'', ''--label=ssh2docker'',
                       ''--label=user=anonymous'', ''--label=image=alpine/test'', ''alpine/test'']
     \<and> DefaultShell example_server = ''/bin/sh''
     \<and> ''/bin/sh'' \<notin> set (cmd_Args cmd)"
proof -
  have t: "TrimSpace [] = []"
    by (simp add: TrimSpace_def strip_tokens.simps space_runes_def)
  show ?thesis
    by (simp add: NewClient_def Let_def example_conn_def example_state_def example_server_def
          default_config_def replace_underscores_def serve_def handle_request_def handle_shell_def
          shell_command_def world_idle_def t create_args_def exec_Command_def reply_events_def)
qed

section \<open>Decoding pty-req and env payloads\<close>

lemma unat_add4: "unat (n :: 8 word) < 252 \<Longrightarrow> unat (n + 4) = unat n + 4"
  by (simp add: unat_word_ariths)

lemma unat_add4_wrap: "252 \<le> unat (n :: 8 word) \<Longrightarrow> unat (n + 4) < 4"
proof -
  assume a: "252 \<le> unat n"
  have b: "unat n < 256" using unsigned_less [of n, where ?'a = nat] by simp
  have "unat (n + 4) = (unat n + 4) mod 256" by (simp add: unat_word_ariths)
  also have "\<dots> = unat n + 4 - 256" using a b by (simp add: mod_if)
  finally show ?thesis using b by simp
qed

lemma be32_bytes:
  "be32 [a, b, c, d] = of_char a * 2 ^ 24 + of_char b * 2 ^ 16 + of_char c * 2 ^ 8 + of_char d"
  by (simp add: be32_def algebra_simps)

text \<open>
  A payload shorter than four bytes has no length byte at index 3: both arms panic on
  their first line, before any assignment.
\<close>

lemma payload_without_length_byte:
  assumes "length payload < 4"
  shows "handle_pty_req s payload = (s, [], Panicked IndexOutOfRange)"
    and "handle_env s payload = (s, [], Panicked IndexOutOfRange)"
  using assms by (simp_all add: handle_pty_req_def handle_env_def index_def)

text \<open>
  A term name of at most 251 bytes, followed by the two geometry fields, is decoded as
  the layout says.
\<close>

lemma pty_req_decodes:
  assumes n: "index payload 3 = Some n" and small: "unat n < 252"
    and len: "4 + unat n + 8 \<le> length payload"
  shows "handle_pty_req s payload =
           (s\<lparr>config := (config s)\<lparr>Env := (Env (config s))(''TERM'' \<mapsto> take (unat n) (drop 4 payload))\<rparr>,
              winsize := (be32 (take 4 (drop (4 + unat n) payload)),
                          be32 (take 4 (drop (8 + unat n) payload)))\<rparr>,
            [], Fallthrough True)"
proof -
  have hi: "unat (n + 4) = unat n + 4" by (rule unat_add4 [OF small])
  have name: "go_slice payload 4 (unat (n + 4)) = Some (take (unat n) (drop 4 payload))"
    using len by (simp add: go_slice_def hi)
  have rest: "go_slice payload (unat (n + 4)) (length payload) = Some (drop (unat n + 4) payload)"
    using len by (simp add: go_slice_def hi)
  have dims: "ParseDims (drop (unat n + 4) payload) =
                Some (be32 (take 4 (drop (4 + unat n) payload)),
                      be32 (take 4 (drop (8 + unat n) payload)))"
    using len by (simp add: ParseDims_def add.commute)
  show ?thesis
    by (simp add: handle_pty_req_def n name rest dims)
qed

text \<open>From 252 bytes on, \<open>termLen+4\<close> wraps below 4 and the slice \<open>[4 : termLen+4]\<close> panics.\<close>

lemma pty_req_wraps:
  assumes n: "index payload 3 = Some n" and big: "252 \<le> unat n"
  shows "handle_pty_req s payload = (s, [], Panicked SliceOutOfRange)"
proof -
  have "unat (n + 4) < 4" by (rule unat_add4_wrap [OF big])
  then have "go_slice payload 4 (unat (n + 4)) = None"
    by (simp add: go_slice_def)
  then show ?thesis
    by (simp add: handle_pty_req_def n)
qed

text \<open>
  A key of \<open>K\<close> bytes and a value of \<open>V\<close> bytes with \<open>K + 8 + V < 256\<close> are extracted
  as the layout says, and the entry is written.
\<close>

lemma env_decodes:
  assumes k: "index payload 3 = Some k"
    and v: "index payload (unat k + 7) = Some v"
    and small: "unat k + 8 + unat v < 256"
    and len: "unat k + 8 + unat v \<le> length payload"
  shows "handle_env s payload =
           (s\<lparr>config := (config s)\<lparr>Env := (Env (config s))
                 (take (unat k) (drop 4 payload) \<mapsto> take (unat v) (drop (unat k + 8) payload))\<rparr>\<rparr>,
            [], Fallthrough False)"
proof -
  have k4: "unat (k + 4) = unat k + 4" and k7: "unat (k + 7) = unat k + 7"
    and k8: "unat (k + 8) = unat k + 8" and kv: "unat (k + 8 + v) = unat k + 8 + unat v"
    using small by (simp_all add: unat_word_ariths)
  have key: "go_slice payload 4 (unat (k + 4)) = Some (take (unat k) (drop 4 payload))"
    using len by (simp add: go_slice_def k4)
  have val: "go_slice payload (unat (k + 8)) (unat (k + 8 + v)) =
               Some (take (unat v) (drop (unat k + 8) payload))"
    using len by (simp add: go_slice_def k8 kv)
  show ?thesis
    by (simp add: handle_env_def k key k7 v val)
qed

text \<open>Two such requests with the same key: the second value is the one that stays.\<close>

lemma env_last_write_wins:
  assumes "index p1 3 = Some k" and "index p1 (unat k + 7) = Some v1"
    and "unat k + 8 + unat v1 < 256" and "unat k + 8 + unat v1 \<le> length p1"
    and "index p2 3 = Some k" and "index p2 (unat k + 7) = Some v2"
    and "unat k + 8 + unat v2 < 256" and "unat k + 8 + unat v2 \<le> length p2"
    and same: "take (unat k) (drop 4 p2) = take (unat k) (drop 4 p1)"
  shows "Env (config (fst (handle_env (fst (handle_env s p1)) p2))) (take (unat k) (drop 4 p1))
           = Some (take (unat v2) (drop (unat k + 8) p2))"
  using assms(1-8)
  by (simp add: env_decodes same)

text \<open>
  C5, at a failing input. A \<open>pty-req\<close> of three bytes and an \<open>env\<close> with no bytes are
  too short to hold the length byte at index 3. The request loop does not decline
  them: it panics on the index, no reply is sent although one is wanted, and the
  requests behind them are never served. The session is as it was.
\<close>

theorem short_payload_panics:
  "HandleChannelRequests w srv s
     (\<lparr>Type = ''pty-req'', WantReply = True, Payload = [CHR 0x00, CHR 0x00, CHR 0x00]\<rparr> # reqs)
     = (s, [TtyClose], Some IndexOutOfRange)
   \<and> HandleChannelRequests w srv s
     (\<lparr>Type = ''env'', WantReply = True, Payload = []\<rparr> # reqs)
     = (s, [TtyClose], Some IndexOutOfRange)"
  by (simp add: serve_def handle_request_def handle_pty_req_def handle_env_def index_def
        reply_events_def)

text \<open>
  C6, at a failing input. A \<open>pty-req\<close> whose term name has 252 bytes, followed by the
  geometry 80 by 24, is laid out as the claim asks. \<open>termLen+4\<close> is computed in a byte
  and is 0, the slice \<open>[4:0]\<close> panics: \<open>TERM\<close> is not set and the terminal is not
  resized.
\<close>

theorem long_term_name_panics:
  "serve w srv s
     \<lparr>Type = ''pty-req'', WantReply = True,
      Payload = [CHR 0x00, CHR 0x00, CHR 0x00, CHR 0xFC] @ replicate 252 (CHR ''x'')
                @ [CHR 0x00, CHR 0x00, CHR 0x00, CHR 0x50, CHR 0x00, CHR 0x00, CHR 0x00, CHR 0x18,
                   CHR 0x00, CHR 0x00, CHR 0x00, CHR 0x00, CHR 0x00, CHR 0x00, CHR 0x00, CHR 0x00]\<rparr>
     = (s, [], Panicked SliceOutOfRange)"
  by (simp add: serve_def handle_request_def handle_pty_req_def index_def go_slice_def
        reply_events_def nth_append)

text \<open>
  C7, at a failing input. An \<open>env\<close> request with the one-byte key \<open>A\<close> and a value of
  250 bytes is laid out as the claim asks. \<open>keyLen+8+valueLen\<close> is computed in a byte and
  is 3, the slice \<open>[9:3]\<close> panics: no entry is written.
\<close>

theorem long_env_value_panics:
  "serve w srv s
     \<lparr>Type = ''env'', WantReply = True,
      Payload = [CHR 0x00, CHR 0x00, CHR 0x00, CHR 0x01] @ ''A''
                @ [CHR 0x00, CHR 0x00, CHR 0x00, CHR 0xFA] @ replicate 250 (CHR ''b'')\<rparr>
     = (s, [], Panicked SliceOutOfRange)"
  by (simp add: serve_def handle_request_def handle_env_def index_def go_slice_def
        reply_events_def nth_append)

section \<open>The exec request\<close>

text \<open>
  C8. Every \<open>exec\<close> request is declined. The handler writes the warning to the
  channel, the fixed text of line 266 saying that exec is not yet implemented, sleeps
  three seconds, and only then sends the reply false (when a reply is wanted); the
  session is unchanged.
\<close>

theorem exec_declined:
  "Type req = ''exec'' \<Longrightarrow>
     serve w srv s req =
       (s,
        [ChanWrite ([CHR 0xE2, CHR 0x9A, CHR 0xA0, CHR 0xEF, CHR 0xB8, CHR 0x8F]
                    @ ''  ssh2docker: exec is not yet implemented. https://github.com/moul/ssh2docker/issues/51.''
                    @ [CHR 0x0A]),
         Sleep 3]
        @ (if WantReply req then [Reply False] else []),
        Fallthrough False)"
  by (simp add: serve_def handle_request_def handle_exec_def reply_events_def exec_warning_def)

theorem exec_declined_witness:
  "serve world_idle example_server example_session
     \<lparr>Type = ''exec'', WantReply = True, Payload = ''ls''\<rparr>
     = (example_session,
        [ChanWrite ([CHR 0xE2, CHR 0x9A, CHR 0xA0, CHR 0xEF, CHR 0xB8, CHR 0x8F]
                    @ ''  ssh2docker: exec is not yet implemented. https://github.com/moul/ssh2docker/issues/51.''
                    @ [CHR 0x0A]),
         Sleep 3, Reply False],
        Fallthrough False)"
  using exec_declined [of "\<lparr>Type = ''exec'', WantReply = True, Payload = ''ls''\<rparr>"
      world_idle example_server example_session]
  by simp

section \<open>The registry of configurations\<close>

lemma wf_stateD:
  "wf_state st \<Longrightarrow> ClientConfigs (server st) k = Some a \<Longrightarrow> a < length (heap st)"
  by (auto simp: wf_state_def ran_def)

lemma NewClient_registry_kept:
  assumes "NewClient AD conn st = (st1, r)" and "ClientConfigs (server st) k = Some a"
  shows "ClientConfigs (server st1) k = Some a"
  using assms
  by (auto simp: NewClient_def Let_def split: option.splits if_splits)

lemma NewClient_wf:
  assumes "NewClient AD conn st = (st1, r)" and "wf_state st"
  shows "wf_state st1"
proof -
  have len: "length (heap st1) = Suc (length (heap st))"
    using assms(1) by (auto simp: NewClient_def Let_def split: option.splits if_splits)
  have "ran (ClientConfigs (server st1)) \<subseteq> insert (length (heap st)) (ran (ClientConfigs (server st)))"
    using assms(1)
    by (auto simp: NewClient_def Let_def ran_def split: option.splits if_splits)
  with assms(2) len show ?thesis
    by (fastforce simp: wf_state_def)
qed

lemma NewClient_result:
  "NewClient AD conn st = (st1, Inr c) \<Longrightarrow>
     ClientConfigs (server st1) (conn_RemoteAddr conn) = Some (Config c)"
  by (auto simp: NewClient_def Let_def split: option.splits if_splits)

lemma NewClient_first:
  assumes "CHR '':'' \<in> set (conn_RemoteAddr conn)"
    and "ClientConfigs (server st) (conn_RemoteAddr conn) = None"
  shows "\<exists>st1 c. NewClient AD conn st = (st1, Inr c)
           \<and> Config c = length (heap st)
           \<and> ClientConfigs (server st1) (conn_RemoteAddr conn) = Some (Config c)
           \<and> heap st1 ! Config c =
               (default_config conn)
                 \<lparr>Env := AD Map.empty,
                  IsLocal := (LocalUser (server st) \<noteq> []
                              \<and> replace_underscores (conn_User conn) = LocalUser (server st))\<rparr>"
  using assms
  by (auto simp: NewClient_def Let_def default_config_def)

lemma NewClient_again:
  assumes "CHR '':'' \<in> set (conn_RemoteAddr conn)"
    and "ClientConfigs (server st) (conn_RemoteAddr conn) = Some a"
    and "a < length (heap st)"
  shows "\<exists>st1 c. NewClient AD conn st = (st1, Inr c)
           \<and> Config c = a
           \<and> ClientConfigs (server st1) (conn_RemoteAddr conn) = Some a
           \<and> heap st1 ! a = (heap st ! a)\<lparr>Env := AD (Env (heap st ! a))\<rparr>"
  using assms
  by (auto simp: NewClient_def Let_def nth_append)

lemma NewClients_registry_kept:
  "NewClients AD conns st = Some st2 \<Longrightarrow> ClientConfigs (server st) k = Some a \<Longrightarrow>
     ClientConfigs (server st2) k = Some a"
proof (induction conns arbitrary: st)
  case Nil
  then show ?case by simp
next
  case (Cons conn conns)
  obtain st1 r where n: "NewClient AD conn st = (st1, r)" by fastforce
  with Cons.prems(1) have rest: "NewClients AD conns st1 = Some st2"
    by (cases r) simp_all
  show ?case
    by (rule Cons.IH [OF rest NewClient_registry_kept [OF n Cons.prems(2)]])
qed

lemma NewClients_wf:
  "NewClients AD conns st = Some st2 \<Longrightarrow> wf_state st \<Longrightarrow> wf_state st2"
proof (induction conns arbitrary: st)
  case Nil
  then show ?case by simp
next
  case (Cons conn conns)
  obtain st1 r where n: "NewClient AD conn st = (st1, r)" by fastforce
  with Cons.prems(1) have rest: "NewClients AD conns st1 = Some st2"
    by (cases r) simp_all
  show ?case
    by (rule Cons.IH [OF rest NewClient_wf [OF n Cons.prems(2)]])
qed

text \<open>
  After a client has been built for an identifier, and however many clients are built
  after it, a client built for the same identifier points to the same configuration.
\<close>

lemma NewClient_same_config_later:
  assumes wf: "wf_state st"
    and first: "NewClient AD conn st = (st1, Inr c)"
    and more: "NewClients AD conns st1 = Some st2"
    and same: "conn_RemoteAddr conn' = conn_RemoteAddr conn"
    and colon: "CHR '':'' \<in> set (conn_RemoteAddr conn')"
  shows "\<exists>st3 c'. NewClient AD conn' st2 = (st3, Inr c') \<and> Config c' = Config c"
proof -
  have reg: "ClientConfigs (server st2) (conn_RemoteAddr conn') = Some (Config c)"
    using NewClients_registry_kept [OF more NewClient_result [OF first]] same by simp
  have "wf_state st2"
    by (rule NewClients_wf [OF more NewClient_wf [OF first wf]])
  then have "Config c < length (heap st2)"
    using reg by (rule wf_stateD)
  from NewClient_again [OF colon reg this, of AD] show ?thesis
    by blast
qed

text \<open>A request served for a client writes the record its pointer refers to.\<close>

lemma Client_serve_store:
  assumes "Client_serve w c2 (st, s) req = ((st2, s2), evs, fl)"
  shows "serve w (server st) (s\<lparr>config := heap st ! Config c2\<rparr>) req = (s2, evs, fl)"
    and "heap st2 = (heap st)[Config c2 := config s2]"
    and "server st2 = server st"
  using assms by (auto simp: Client_serve_def split: prod.splits)

lemma Client_serve_wf:
  assumes "Client_serve w c2 (st, s) req = ((st2, s2), evs, fl)" and "wf_state st"
  shows "wf_state st2"
  using Client_serve_store(2,3) [OF assms(1)] assms(2)
  by (simp add: wf_state_def)

text \<open>
  C9. In a state where every registered pointer is allocated, for an identifier of
  the form host:port, \<open>NewClient\<close> returns a client whose configuration is the one
  the registry holds for the identifier afterwards. When the identifier was not
  registered, that is the freshly allocated record, seeded with the image name (the
  requested user with every underscore turned into a slash), the remote user
  \<open>anonymous\<close>, the environment defaults applied to the empty environment, and the
  empty command. When it was registered, that is the record registered before, not the
  fresh one, with what it held (the defaults applied to its environment once more). No
  registered pointer is ever replaced, by a construction or by a request, so every
  later construction finds it. Whatever a request served for any client with the same
  pointer does to the configuration is what this client then reads.
\<close>

theorem NewClient_shares_config:
  assumes wf: "wf_state st"
    and colon: "CHR '':'' \<in> set (conn_RemoteAddr conn)"
    and new: "NewClient AD conn st = (st1, r)"
  shows "\<exists>c. r = Inr c
           \<and> ClientConfigs (server st1) (conn_RemoteAddr conn) = Some (Config c)
           \<and> (case ClientConfigs (server st) (conn_RemoteAddr conn) of
                None \<Rightarrow>
                  Config c = length (heap st)
                  \<and> ImageName (heap st1 ! Config c)
                      = map (\<lambda>x. if x = CHR ''_'' then CHR ''/'' else x) (conn_User conn)
                  \<and> RemoteUser (heap st1 ! Config c) = ''anonymous''
                  \<and> Env (heap st1 ! Config c) = AD Map.empty
                  \<and> Command (heap st1 ! Config c) = Some []
              | Some a \<Rightarrow>
                  Config c = a \<and> a \<noteq> length (heap st)
                  \<and> heap st1 ! a = (heap st ! a)\<lparr>Env := AD (Env (heap st ! a))\<rparr>)
           \<and> (\<forall>k a. ClientConfigs (server st) k = Some a \<longrightarrow> ClientConfigs (server st1) k = Some a)
           \<and> wf_state st1
           \<and> (\<forall>w c2 s req st2 s2 evs fl.
                 Config c2 = Config c \<longrightarrow>
                 Client_serve w c2 (st1, s) req = ((st2, s2), evs, fl) \<longrightarrow>
                   serve w (server st1) (s\<lparr>config := heap st1 ! Config c\<rparr>) req = (s2, evs, fl)
                   \<and> heap st2 ! Config c = config s2
                   \<and> server st2 = server st1 \<and> wf_state st2)"
proof -
  have base: "\<exists>c. r = Inr c
           \<and> ClientConfigs (server st1) (conn_RemoteAddr conn) = Some (Config c)
           \<and> (case ClientConfigs (server st) (conn_RemoteAddr conn) of
                None \<Rightarrow>
                  Config c = length (heap st)
                  \<and> ImageName (heap st1 ! Config c)
                      = map (\<lambda>x. if x = CHR ''_'' then CHR ''/'' else x) (conn_User conn)
                  \<and> RemoteUser (heap st1 ! Config c) = ''anonymous''
                  \<and> Env (heap st1 ! Config c) = AD Map.empty
                  \<and> Command (heap st1 ! Config c) = Some []
              | Some a \<Rightarrow>
                  Config c = a \<and> a \<noteq> length (heap st)
                  \<and> heap st1 ! a = (heap st ! a)\<lparr>Env := AD (Env (heap st ! a))\<rparr>)"
  proof (cases "ClientConfigs (server st) (conn_RemoteAddr conn)")
    case None
    from NewClient_first [OF colon None, of AD] new
    show ?thesis
      using None by (auto simp: default_config_def replace_underscores_def)
  next
    case (Some a)
    have a: "a < length (heap st)" by (rule wf_stateD [OF wf Some])
    from NewClient_again [OF colon Some a, of AD] new
    show ?thesis
      using Some a by auto
  qed
  then obtain c where c: "r = Inr c"
    and reg: "ClientConfigs (server st1) (conn_RemoteAddr conn) = Some (Config c)"
    and cases: "(case ClientConfigs (server st) (conn_RemoteAddr conn) of
                None \<Rightarrow>
                  Config c = length (heap st)
                  \<and> ImageName (heap st1 ! Config c)
                      = map (\<lambda>x. if x = CHR ''_'' then CHR ''/'' else x) (conn_User conn)
                  \<and> RemoteUser (heap st1 ! Config c) = ''anonymous''
                  \<and> Env (heap st1 ! Config c) = AD Map.empty
                  \<and> Command (heap st1 ! Config c) = Some []
              | Some a \<Rightarrow>
                  Config c = a \<and> a \<noteq> length (heap st)
                  \<and> heap st1 ! a = (heap st ! a)\<lparr>Env := AD (Env (heap st ! a))\<rparr>)"
    by blast
  have wf1: "wf_state st1" by (rule NewClient_wf [OF new wf])
  have alloc: "Config c < length (heap st1)" by (rule wf_stateD [OF wf1 reg])
  have kept: "\<forall>k a. ClientConfigs (server st) k = Some a \<longrightarrow> ClientConfigs (server st1) k = Some a"
    using NewClient_registry_kept [OF new] by blast
  have seen: "\<forall>w c2 s req st2 s2 evs fl.
                 Config c2 = Config c \<longrightarrow>
                 Client_serve w c2 (st1, s) req = ((st2, s2), evs, fl) \<longrightarrow>
                   serve w (server st1) (s\<lparr>config := heap st1 ! Config c\<rparr>) req = (s2, evs, fl)
                   \<and> heap st2 ! Config c = config s2
                   \<and> server st2 = server st1 \<and> wf_state st2"
  proof (intro allI impI)
    fix w c2 s req st2 s2 evs fl
    assume same: "Config c2 = Config c"
      and run: "Client_serve w c2 (st1, s) req = ((st2, s2), evs, fl)"
    from Client_serve_store [OF run] same alloc Client_serve_wf [OF run wf1]
    show "serve w (server st1) (s\<lparr>config := heap st1 ! Config c\<rparr>) req = (s2, evs, fl)
            \<and> heap st2 ! Config c = config s2
            \<and> server st2 = server st1 \<and> wf_state st2"
      by simp
  qed
  from c reg cases kept wf1 seen show ?thesis by blast
qed

text \<open>
  Two connections from \<open>10.0.0.1:4242\<close> as user \<open>my_org_alpine\<close>: the first registers
  the image \<open>my/org/alpine\<close>, the second gets the same record, and the variable the
  first sets with an \<open>env\<close> request is read through the second.
\<close>

theorem NewClient_shares_config_witness:
  "wf_state example_state
   \<and> CHR '':'' \<in> set ''10.0.0.1:4242''
   \<and> (\<exists>st1 c st2 c' st3 s3.
         NewClient (\<lambda>e. e) \<lparr>conn_User = ''my_org_alpine'', conn_RemoteAddr = ''10.0.0.1:4242''\<rparr>
           example_state = (st1, Inr c)
         \<and> ImageName (heap st1 ! Config c) = ''my/org/alpine''
         \<and> NewClient (\<lambda>e. e) \<lparr>conn_User = ''my_org_alpine'', conn_RemoteAddr = ''10.0.0.1:4242''\<rparr>
             st1 = (st2, Inr c')
         \<and> Config c' = Config c
         \<and> Client_serve world_idle c (st2, example_session)
             \<lparr>Type = ''env'', WantReply = True,
              Payload = [CHR 0x00, CHR 0x00, CHR 0x00, CHR 0x03] @ ''FOO''
                        @ [CHR 0x00, CHR 0x00, CHR 0x00, CHR 0x03] @ ''bar''\<rparr>
             = ((st3, s3), [Reply False], Fallthrough False)
         \<and> Env (heap st3 ! Config c') ''FOO'' = Some ''bar'')"
proof -
  let ?conn = "\<lparr>conn_User = ''my_org_alpine'', conn_RemoteAddr = ''10.0.0.1:4242''\<rparr>"
  let ?req = "\<lparr>Type = ''env'', WantReply = True,
              Payload = [CHR 0x00, CHR 0x00, CHR 0x00, CHR 0x03] @ ''FOO''
                        @ [CHR 0x00, CHR 0x00, CHR 0x00, CHR 0x03] @ ''bar''\<rparr>"
  have wf: "wf_state example_state"
    by (simp add: wf_state_def example_state_def example_server_def)
  have colon: "CHR '':'' \<in> set (conn_RemoteAddr ?conn)"
    by simp
  have unreg: "ClientConfigs (server example_state) ''10.0.0.1:4242'' = None"
    by (simp add: example_state_def example_server_def)
  obtain st1 r1 where n1: "NewClient (\<lambda>e. e) ?conn example_state = (st1, r1)"
    by fastforce
  from NewClient_shares_config [OF wf colon n1] obtain c where
    c: "r1 = Inr c" and reg: "ClientConfigs (server st1) ''10.0.0.1:4242'' = Some (Config c)"
    and img: "ImageName (heap st1 ! Config c) = ''my/org/alpine''" and wf1: "wf_state st1"
    by (auto simp: unreg)
  obtain st2 r2 where n2: "NewClient (\<lambda>e. e) ?conn st1 = (st2, r2)"
    by fastforce
  from NewClient_shares_config [OF wf1 colon n2] obtain c' where
    c': "r2 = Inr c'" and same: "Config c' = Config c"
    and seen: "\<forall>w c2 s req st3 s3 evs fl.
                 Config c2 = Config c' \<longrightarrow>
                 Client_serve w c2 (st2, s) req = ((st3, s3), evs, fl) \<longrightarrow>
                   serve w (server st2) (s\<lparr>config := heap st2 ! Config c'\<rparr>) req = (s3, evs, fl)
                   \<and> heap st3 ! Config c' = config s3
                   \<and> server st3 = server st2 \<and> wf_state st3"
    using reg by auto
  obtain st3 s3 evs fl where run: "Client_serve world_idle c (st2, example_session) ?req = ((st3, s3), evs, fl)"
    by (metis prod_cases3 surj_pair)
  from seen same run
  have sv: "serve world_idle (server st2) (example_session\<lparr>config := heap st2 ! Config c'\<rparr>) ?req = (s3, evs, fl)"
    and rd: "heap st3 ! Config c' = config s3"
    by auto
  from sv have out: "evs = [Reply False]" "fl = Fallthrough False" "Env (config s3) ''FOO'' = Some ''bar''"
    by (auto simp: serve_def handle_request_def handle_env_def index_def go_slice_def reply_events_def)
  from n1 c img n2 c' same run out rd wf show ?thesis
    by auto
qed

section \<open>Connection-level requests\<close>

text \<open>
  C10. Every connection-level request that wants a reply gets the reply false, whatever
  its type and payload, one reply per such request and in the order of the requests;
  requests that want none get none; the session state is not changed.
\<close>

theorem HandleRequests_declines:
  "HandleRequests s reqs = (s, map (\<lambda>req. Reply False) (filter WantReply reqs))"
  by (induction reqs) auto

theorem HandleRequests_declines_witness:
  "HandleRequests example_session
     [\<lparr>Type = ''keepalive@openssh.com'', WantReply = True, Payload = []\<rparr>,
      \<lparr>Type = ''tcpip-forward'', WantReply = False, Payload = ''abc''\<rparr>,
      \<lparr>Type = ''shell'', WantReply = True, Payload = []\<rparr>]
     = (example_session, [Reply False, Reply False])"
  using HandleRequests_declines [of example_session
      "[\<lparr>Type = ''keepalive@openssh.com'', WantReply = True, Payload = []\<rparr>,
        \<lparr>Type = ''tcpip-forward'', WantReply = False, Payload = ''abc''\<rparr>,
        \<lparr>Type = ''shell'', WantReply = True, Payload = []\<rparr>]"]
  by simp

end
